theory Spec2Isabelle
  imports Complex_Main "HOL-Library.Word"
begin

unbundle bit_operations_syntax

section \<open>NPK soil sensor over Modbus RTU: the two sketches\<close>

text \<open>
  The repository holds two Arduino sketches that poll the same soil sensor.
  \<^verbatim>\<open>sketch_jul23a.ino\<close> sends six hard-coded request frames over a SoftwareSerial
  port and reads the answer byte by byte into one global buffer.
  \<^verbatim>\<open>sketch_jul28a.ino\<close> delegates the transaction to the ModbusMaster library and
  scales the register it gets back.

  A C \<^verbatim>\<open>byte\<close> is an \<open>8 word\<close>, a \<^verbatim>\<open>uint16_t\<close> a \<open>16 word\<close>.
\<close>

type_synonym byte = "8 word"
type_synonym u16 = "16 word"

subsection \<open>The request frames of sketch\_jul23a (lines 10 to 15)\<close>

definition nitro :: "byte list" where
  "nitro = [0x01, 0x03, 0x00, 0x1e, 0x00, 0x01, 0xe4, 0x0c]"

definition phos :: "byte list" where
  "phos = [0x01, 0x03, 0x00, 0x1f, 0x00, 0x01, 0xb5, 0xcc]"

definition pota :: "byte list" where
  "pota = [0x01, 0x03, 0x00, 0x20, 0x00, 0x01, 0x85, 0xc0]"

definition ec :: "byte list" where
  "ec = [0x01, 0x03, 0x00, 0x15, 0x00, 0x01, 0x95, 0xce]"

definition ph :: "byte list" where
  "ph = [0x01, 0x03, 0x00, 0x06, 0x00, 0x01, 0x64, 0x0b]"

definition temp :: "byte list" where
  "temp = [0x01, 0x03, 0x00, 0x12, 0x00, 0x02, 0x64, 0x0e]"

subsection \<open>The CRC16 engine\<close>

text \<open>
  Modelled from the spec: neither sketch contains a CRC routine (sketch\_jul23a carries
  precomputed check bytes, sketch\_jul28a leaves the check to the ModbusMaster library).
  The spec's section 4.1 fixes the algorithm: initial register 0xFFFF, polynomial
  0xA001, bit-reflected, one byte at a time, 8 shift-right steps per byte, XOR with the
  polynomial when the shifted-out bit is 1.
\<close>

definition crc16_shift :: "u16 \<Rightarrow> u16" where
  "crc16_shift c = (if c AND 1 = 1 then drop_bit 1 c XOR 0xA001 else drop_bit 1 c)"

definition crc16_byte :: "u16 \<Rightarrow> byte \<Rightarrow> u16" where
  "crc16_byte c b = (crc16_shift ^^ 8) (c XOR ucast b)"

definition crc16 :: "byte list \<Rightarrow> u16" where
  "crc16 bs = foldl crc16_byte 0xFFFF bs"

text \<open>
  Modelled from the spec: the check bytes on the wire are the CRC's low byte, then its
  high byte (section 3, Frame), and \<open>verify\<close> recomputes the CRC over all bytes but the
  last two (section 4.1).
\<close>

definition crc_bytes :: "u16 \<Rightarrow> byte list" where
  "crc_bytes c = [ucast c, ucast (drop_bit 8 c)]"

definition verify :: "byte list \<Rightarrow> bool" where
  "verify frame =
     (2 \<le> length frame \<and>
      drop (length frame - 2) frame = crc_bytes (crc16 (take (length frame - 2) frame)))"

text \<open>
  Modelled from the spec: a request frame is the 8 bytes slave address, function code,
  start register (high, low), register count (high, low), CRC (low, high), with the CRC
  taken over the first six.
\<close>

definition request_frame_ok :: "byte list \<Rightarrow> bool" where
  "request_frame_ok f =
     (length f = 8 \<and> f ! 0 = 0x01 \<and> f ! 1 = 0x03 \<and>
      [f ! 6, f ! 7] = crc_bytes (crc16 (take 6 f)))"

text \<open>
  Modelled from the spec: a register value is the big-endian u16 of its two payload
  bytes, and the six header bytes of a request decode to the spec's \<open>Request\<close>.
\<close>

definition be16 :: "byte \<Rightarrow> byte \<Rightarrow> u16" where
  "be16 hi lo = push_bit 8 (ucast hi) OR ucast lo"

record Request =
  slave_address :: byte
  function_code :: byte
  start_register :: u16
  register_count :: u16

definition decode_request :: "byte list \<Rightarrow> Request" where
  "decode_request f =
     \<lparr>slave_address = f ! 0, function_code = f ! 1,
      start_register = be16 (f ! 2) (f ! 3), register_count = be16 (f ! 4) (f ! 5)\<rparr>"

subsection \<open>sketch\_jul23a: the machine state\<close>

text \<open>
  Both sketches drive the transceiver pins DE (7) and RE (8): \<open>board\<close> holds their
  levels. The state of sketch\_jul23a adds the global buffer \<^verbatim>\<open>byte values[11]\<close>
  (named \<open>values_buf\<close> here, \<open>values\<close> being a command of Isabelle) and the
  SoftwareSerial port \<^verbatim>\<open>mod\<close>. The port is the environment: \<open>rx\<close> lists what the coming calls of \<^verbatim>\<open>mod.read()\<close> find (\<open>Some b\<close> a received byte,
  \<open>None\<close> nothing available; past the end of the list nothing ever arrives), and the
  count that \<^verbatim>\<open>mod.write\<close> reports is an argument of each reading function. \<open>trace\<close>
  logs the pin writes, delays and port calls in program order. The debug output on
  \<^verbatim>\<open>Serial\<close> is left out: it touches neither the buffer, the pins nor the port.
\<close>

datatype level = LOW | HIGH

datatype pin = RE | DE

datatype event =
    DigitalWrite pin level
  | Delay nat
  | ModWrite "byte list" nat
  | ModRead int

record board =
  pin_DE :: level
  pin_RE :: level
  trace :: "event list"

record sketch = board +
  values_buf :: "byte list"
  rx :: "byte option list"

definition digitalWrite :: "pin \<Rightarrow> level \<Rightarrow> 'a board_scheme \<Rightarrow> 'a board_scheme" where
  "digitalWrite p v s =
     (case p of
        DE \<Rightarrow> s\<lparr>pin_DE := v, trace := trace s @ [DigitalWrite DE v]\<rparr>
      | RE \<Rightarrow> s\<lparr>pin_RE := v, trace := trace s @ [DigitalWrite RE v]\<rparr>)"

definition delay :: "nat \<Rightarrow> 'a board_scheme \<Rightarrow> 'a board_scheme" where
  "delay ms s = s\<lparr>trace := trace s @ [Delay ms]\<rparr>"

text \<open>
  \<^verbatim>\<open>mod.write(buf, size)\<close> hands the frame to the port, which reports \<open>n\<close> bytes
  accepted. \<^verbatim>\<open>mod.read()\<close> returns the next received byte as an \<^verbatim>\<open>int\<close>, or -1
  when none is available.
\<close>

definition mod_write :: "byte list \<Rightarrow> nat \<Rightarrow> sketch \<Rightarrow> nat \<times> sketch" where
  "mod_write buf n s = (n, s\<lparr>trace := trace s @ [ModWrite buf n]\<rparr>)"

definition next_read :: "byte option list \<Rightarrow> int" where
  "next_read q = (case q of [] \<Rightarrow> - 1 | None # _ \<Rightarrow> - 1 | Some b # _ \<Rightarrow> uint b)"

definition mod_read :: "sketch \<Rightarrow> int \<times> sketch" where
  "mod_read s =
     (next_read (rx s),
      s\<lparr>rx := drop 1 (rx s), trace := trace s @ [ModRead (next_read (rx s))]\<rparr>)"

subsection \<open>sketch\_jul23a: the reading functions (lines 77 to 177)\<close>

text \<open>
  The loop body \<^verbatim>\<open>values[i] = mod.read();\<close>: the \<^verbatim>\<open>int\<close> is converted to a
  \<^verbatim>\<open>byte\<close>, so -1 is stored as 0xFF. The index stays below 7, inside the 11 bytes.
\<close>

definition read_step :: "nat \<Rightarrow> sketch \<Rightarrow> sketch" where
  "read_step i s =
     (let (r, s') = mod_read s
      in s'\<lparr>values_buf := (values_buf s')[i := word_of_int r]\<rparr>)"

function read_loop :: "nat \<Rightarrow> sketch \<Rightarrow> sketch" where
  "read_loop i s = (if i < 7 then read_loop (i + 1) (read_step i s) else s)"
  by pat_completeness auto
termination
  by (relation "measure (\<lambda>(i, s). 7 - i)") auto

declare read_loop.simps [simp del]

text \<open>
  The six functions \<^verbatim>\<open>nitrogen\<close>, \<^verbatim>\<open>phosphorous\<close>, \<^verbatim>\<open>potassium\<close>,
  \<^verbatim>\<open>electroconductivity\<close>, \<^verbatim>\<open>pH\<close> and \<^verbatim>\<open>temperature\<close> have the same body and
  differ only in the array they send; \<open>request_and_read\<close> is that body.
  \<^verbatim>\<open>sizeof\<close> of each array is 8.
\<close>

definition request_and_read :: "byte list \<Rightarrow> nat \<Rightarrow> sketch \<Rightarrow> byte \<times> sketch" where
  "request_and_read frame n s =
     (let s1 = digitalWrite DE HIGH s;
          s2 = digitalWrite RE HIGH s1;
          s3 = delay 10 s2;
          (written, s4) = mod_write frame n s3;
          s5 = (if written = 8
                then read_loop 0 (digitalWrite RE LOW (digitalWrite DE LOW s4))
                else s4)
      in (values_buf s5 ! 4, s5))"

definition nitrogen :: "nat \<Rightarrow> sketch \<Rightarrow> byte \<times> sketch" where
  "nitrogen = request_and_read nitro"

definition phosphorous :: "nat \<Rightarrow> sketch \<Rightarrow> byte \<times> sketch" where
  "phosphorous = request_and_read phos"

definition potassium :: "nat \<Rightarrow> sketch \<Rightarrow> byte \<times> sketch" where
  "potassium = request_and_read pota"

definition electroconductivity :: "nat \<Rightarrow> sketch \<Rightarrow> byte \<times> sketch" where
  "electroconductivity = request_and_read ec"

definition pH :: "nat \<Rightarrow> sketch \<Rightarrow> byte \<times> sketch" where
  "pH = request_and_read ph"

definition temperature :: "nat \<Rightarrow> sketch \<Rightarrow> byte \<times> sketch" where
  "temperature = request_and_read temp"

definition reading_functions :: "(nat \<Rightarrow> sketch \<Rightarrow> byte \<times> sketch) list" where
  "reading_functions =
     [nitrogen, phosphorous, potassium, electroconductivity, pH, temperature]"

text \<open>The state after \<^verbatim>\<open>setup()\<close>: the buffer is zero-initialised, nothing logged yet.\<close>

definition power_on :: "byte option list \<Rightarrow> sketch" where
  "power_on q =
     \<lparr>pin_DE = LOW, pin_RE = LOW, trace = [], values_buf = replicate 11 0, rx = q\<rparr>"

subsection \<open>One transaction's events and their order\<close>

text \<open>
  What a call of a reading function appends to the log, and the order properties of
  the direction protocol: the pins are raised and a delay has passed before the first
  write to the port; a given switch event happens once, after every write and before
  every read.
\<close>

definition events_of :: "(sketch \<Rightarrow> byte \<times> sketch) \<Rightarrow> sketch \<Rightarrow> event list" where
  "events_of f s = drop (length (trace s)) (trace (snd (f s)))"

fun is_write :: "event \<Rightarrow> bool" where
  "is_write (ModWrite _ _) = True"
| "is_write _ = False"

fun is_read :: "event \<Rightarrow> bool" where
  "is_read (ModRead _) = True"
| "is_read _ = False"

fun is_delay :: "event \<Rightarrow> bool" where
  "is_delay (Delay _) = True"
| "is_delay _ = False"

definition settled_before_write :: "event list \<Rightarrow> bool" where
  "settled_before_write t =
     (let pre = takeWhile (\<lambda>e. \<not> is_write e) t;
          raised = takeWhile (\<lambda>e. \<not> is_delay e) pre
      in list_ex is_write t \<and> list_ex is_delay pre \<and>
         DigitalWrite DE HIGH \<in> set raised \<and> DigitalWrite RE HIGH \<in> set raised \<and>
         DigitalWrite DE LOW \<notin> set pre \<and> DigitalWrite RE LOW \<notin> set pre)"

definition once_after_write_before_read :: "event \<Rightarrow> event list \<Rightarrow> bool" where
  "once_after_write_before_read e t =
     (let before = takeWhile (\<lambda>x. x \<noteq> e) t;
          after = drop (Suc (length before)) t
      in e \<in> set t \<and> e \<notin> set after \<and>
         list_ex is_write before \<and> \<not> list_ex is_write after \<and>
         \<not> list_ex is_read before)"

subsection \<open>sketch\_jul28a: the ModbusMaster node\<close>

text \<open>
  The ModbusMaster library is not part of the repository, so the object \<^verbatim>\<open>node\<close> is a
  parameter: its constant \<^verbatim>\<open>ku8MBSuccess\<close>, and \<open>transact\<close>, which gives for each
  request the result code that \<^verbatim>\<open>readHoldingRegisters\<close> returns together with the
  response buffer that \<^verbatim>\<open>getResponseBuffer\<close> then reads.
\<close>

record ModbusMaster =
  ku8MBSuccess :: byte
  transact :: "Request \<Rightarrow> byte \<times> (byte \<Rightarrow> u16)"

text \<open>
  Modelled from the spec: the library's frame building is absent. A call
  \<^verbatim>\<open>readHoldingRegisters(addr, qty)\<close> stands for the request with function code 0x03
  ("read holding registers", sections 3 and 6), start register \<open>addr\<close> and register
  count \<open>qty\<close>, addressed to slave 1, the id the sketch gives \<^verbatim>\<open>node.begin\<close> (line 46).
\<close>

definition holding_request :: "u16 \<Rightarrow> u16 \<Rightarrow> Request" where
  "holding_request addr qty =
     \<lparr>slave_address = 1, function_code = 0x03, start_register = addr, register_count = qty\<rparr>"

definition readHoldingRegisters ::
  "ModbusMaster \<Rightarrow> u16 \<Rightarrow> u16 \<Rightarrow> byte \<times> (byte \<Rightarrow> u16)" where
  "readHoldingRegisters node addr qty = transact node (holding_request addr qty)"

subsection \<open>sketch\_jul28a: the callbacks and the reading functions\<close>

definition preTransmission :: "'a board_scheme \<Rightarrow> 'a board_scheme" where
  "preTransmission s = digitalWrite DE HIGH (digitalWrite RE HIGH s)"

definition postTransmission :: "'a board_scheme \<Rightarrow> 'a board_scheme" where
  "postTransmission s = digitalWrite RE LOW (digitalWrite DE LOW s)"

text \<open>
  A C \<^verbatim>\<open>float\<close> is modelled by the real number it stands for. Every
  \<^verbatim>\<open>uint16_t\<close> converts to \<^verbatim>\<open>float\<close> exactly. A quotient is rounded to binary32:
  \<open>float_div n d\<close> is the \<^verbatim>\<open>float\<close> that the division of the float \<open>n\<close> by the
  float \<open>d\<close> gives, for \<open>0 < d\<close> and \<open>n\<close>, \<open>d\<close> below \<open>2 ^ 24\<close>. \<open>float_shift\<close> finds
  the least \<open>k\<close> that brings \<open>n * 2 ^ k / d\<close> up to \<open>2 ^ 23\<close>, so that the integer part
  \<open>q\<close> has the 24 bits of a binary32 significand; the remainder \<open>r\<close> rounds \<open>q\<close> to
  nearest, a tie to the even neighbour; the result is the significand over \<open>2 ^ k\<close>.
  The literals \<^verbatim>\<open>100.0\<close> and \<^verbatim>\<open>10.0\<close> are doubles: on the AVR boards a double is
  binary32, and where it is binary64 the value is rounded to \<^verbatim>\<open>float\<close> on return.
  The error branch's debug output on \<^verbatim>\<open>Serial\<close> is left out.
\<close>

function float_shift :: "nat \<Rightarrow> nat \<Rightarrow> nat \<Rightarrow> nat" where
  "float_shift n d k =
     (if n = 0 \<or> d * 2 ^ 23 \<le> n * 2 ^ k then k else float_shift n d (k + 1))"
  by pat_completeness auto
termination
proof (relation "measure (\<lambda>(n, d, k). d * 2 ^ 23 - n * 2 ^ k)")
  show "wf (measure (\<lambda>(n, d, k). d * 2 ^ 23 - n * 2 ^ k))" by simp
next
  fix n d k :: nat
  assume "\<not> (n = 0 \<or> d * 2 ^ 23 \<le> n * 2 ^ k)"
  then have "0 < n * 2 ^ k" and "n * 2 ^ k < d * 2 ^ 23" by simp_all
  then have "n * 2 ^ k < n * 2 ^ (k + 1)" and "n * 2 ^ k < d * 2 ^ 23"
    by simp_all
  then have "d * 2 ^ 23 - n * 2 ^ (k + 1) < d * 2 ^ 23 - n * 2 ^ k"
    by linarith
  then show "((n, d, k + 1), (n, d, k)) \<in> measure (\<lambda>(n, d, k). d * 2 ^ 23 - n * 2 ^ k)"
    by simp
qed

declare float_shift.simps [simp del]

definition float_div :: "nat \<Rightarrow> nat \<Rightarrow> real" where
  "float_div n d =
     (let k = float_shift n d 0;
          q = n * 2 ^ k div d;
          r = n * 2 ^ k mod d;
          m = (if d < 2 * r \<or> (2 * r = d \<and> odd q) then q + 1 else q)
      in real m / 2 ^ k)"

definition readNitrogen :: "ModbusMaster \<Rightarrow> real" where
  "readNitrogen node =
     (let (result, getResponseBuffer) = readHoldingRegisters node 0x1E 1
      in if result = ku8MBSuccess node
         then (let rawValue = getResponseBuffer 0 in real (unat rawValue))
         else - 1)"

definition readPhosphorous :: "ModbusMaster \<Rightarrow> real" where
  "readPhosphorous node =
     (let (result, getResponseBuffer) = readHoldingRegisters node 0x1F 1
      in if result = ku8MBSuccess node
         then (let rawValue = getResponseBuffer 0 in real (unat rawValue))
         else - 1)"

definition readPotassium :: "ModbusMaster \<Rightarrow> real" where
  "readPotassium node =
     (let (result, getResponseBuffer) = readHoldingRegisters node 0x20 1
      in if result = ku8MBSuccess node
         then (let rawValue = getResponseBuffer 0 in real (unat rawValue))
         else - 1)"

definition readElectroconductivity :: "ModbusMaster \<Rightarrow> real" where
  "readElectroconductivity node =
     (let (result, getResponseBuffer) = readHoldingRegisters node 0x15 1
      in if result = ku8MBSuccess node
         then (let rawValue = getResponseBuffer 0 in real (unat rawValue))
         else - 1)"

definition readPH :: "ModbusMaster \<Rightarrow> real" where
  "readPH node =
     (let (result, getResponseBuffer) = readHoldingRegisters node 0x06 1
      in if result = ku8MBSuccess node
         then (let rawValue = getResponseBuffer 0 in float_div (unat rawValue) 100)
         else - 1)"

definition readTemperature :: "ModbusMaster \<Rightarrow> real" where
  "readTemperature node =
     (let (result, getResponseBuffer) = readHoldingRegisters node 0x12 1
      in if result = ku8MBSuccess node
         then (let rawValue = getResponseBuffer 0 in float_div (unat rawValue) 10)
         else - 1)"

text \<open>The six functions, each with the arguments of its \<^verbatim>\<open>readHoldingRegisters\<close> call.\<close>

definition read_calls :: "((ModbusMaster \<Rightarrow> real) \<times> u16 \<times> u16) list" where
  "read_calls =
     [(readNitrogen, 0x1E, 1), (readPhosphorous, 0x1F, 1), (readPotassium, 0x20, 1),
      (readElectroconductivity, 0x15, 1), (readPH, 0x06, 1), (readTemperature, 0x12, 1)]"

text \<open>
  The caller's test in \<^verbatim>\<open>loop()\<close> (lines 64 to 121): a value other than -1.0 is
  printed with its unit, -1.0 gives the line "Error reading data".
\<close>

datatype report = Printed real | Error_reading_data

definition loop_report :: "real \<Rightarrow> report" where
  "loop_report v = (if v \<noteq> - 1 then Printed v else Error_reading_data)"

text \<open>A node whose every transaction succeeds with the register value \<open>raw\<close>.\<close>

definition answering :: "u16 \<Rightarrow> ModbusMaster" where
  "answering raw = \<lparr>ku8MBSuccess = 0, transact = (\<lambda>_. (0, \<lambda>_. raw))\<rparr>"

text \<open>A node whose every transaction fails with the result code \<open>code\<close>.\<close>

definition failing :: "byte \<Rightarrow> ModbusMaster" where
  "failing code = \<lparr>ku8MBSuccess = 0, transact = (\<lambda>_. (code, \<lambda>_. 0))\<rparr>"

subsection \<open>Example replies\<close>

text \<open>
  Replies of the sensor to a single-register read: slave 1, function 3, byte count 2,
  the register's high and low byte, and two check bytes. \<open>reply_71\<close> is the spec's
  example (register 0x0047), \<open>reply_327\<close> carries register 0x0147, \<open>reply_42\<close>
  register 0x002A; \<open>reply_bad_crc\<close> is \<open>reply_71\<close> with its check bytes zeroed.
  \<open>reply_two_registers\<close> is a reply to a two-register read (byte count 4, registers
  0x00FA and 0x012C), 9 bytes long.
\<close>

definition reply_71 :: "byte list" where
  "reply_71 = [0x01, 0x03, 0x02, 0x00, 0x47, 0xF8, 0x76]"

definition reply_327 :: "byte list" where
  "reply_327 = [0x01, 0x03, 0x02, 0x01, 0x47, 0xF9, 0xE6]"

definition reply_42 :: "byte list" where
  "reply_42 = [0x01, 0x03, 0x02, 0x00, 0x2A, 0x39, 0x9B]"

definition reply_bad_crc :: "byte list" where
  "reply_bad_crc = [0x01, 0x03, 0x02, 0x00, 0x47, 0x00, 0x00]"

definition reply_two_registers :: "byte list" where
  "reply_two_registers = [0x01, 0x03, 0x04, 0x00, 0xFA, 0x01, 0x2C, 0xDA, 0x4F]"

section \<open>Request frames\<close>

lemma crc16_byte_unroll:
  "crc16_byte c b =
     crc16_shift (crc16_shift (crc16_shift (crc16_shift
       (crc16_shift (crc16_shift (crc16_shift (crc16_shift (c XOR ucast b))))))))"
  by (simp add: crc16_byte_def eval_nat_numeral)

lemmas crc16_eval = crc16_def crc16_byte_unroll crc16_shift_def crc_bytes_def

text \<open>The model of the CRC gives the standard check value of CRC-16/MODBUS.\<close>

lemma crc16_check_value:
  "crc16 [0x31, 0x32, 0x33, 0x34, 0x35, 0x36, 0x37, 0x38, 0x39] = 0x4B37"
  by (simp add: crc16_eval)

lemma verify_append_crc: "verify (bs @ crc_bytes (crc16 bs))"
  by (simp add: verify_def crc_bytes_def)

lemma request_frame_ok_nitro: "request_frame_ok nitro"
  by (simp add: request_frame_ok_def nitro_def crc16_eval)

lemma request_frame_ok_phos: "request_frame_ok phos"
  by (simp add: request_frame_ok_def phos_def crc16_eval)

lemma request_frame_ok_pota: "request_frame_ok pota"
  by (simp add: request_frame_ok_def pota_def crc16_eval)

lemma request_frame_ok_ec: "request_frame_ok ec"
  by (simp add: request_frame_ok_def ec_def crc16_eval)

lemma request_frame_ok_ph: "request_frame_ok ph"
  by (simp add: request_frame_ok_def ph_def crc16_eval)

lemma request_frame_ok_temp: "request_frame_ok temp"
  by (simp add: request_frame_ok_def temp_def crc16_eval)

text \<open>
  C1. Each of the six request arrays of sketch\_jul23a is an 8-byte frame that starts
  with slave address 0x01 and function code 0x03 and ends with the Modbus CRC16 of its
  first six bytes, low byte first.
\<close>

theorem request_frames_carry_their_crc:
  "request_frame_ok nitro \<and> request_frame_ok phos \<and> request_frame_ok pota \<and>
   request_frame_ok ec \<and> request_frame_ok ph \<and> request_frame_ok temp"
  using request_frame_ok_nitro request_frame_ok_phos request_frame_ok_pota
    request_frame_ok_ec request_frame_ok_ph request_frame_ok_temp
  by simp

section \<open>The reading functions of sketch\_jul23a\<close>

text \<open>The loop runs its body for the indices 0 to 6.\<close>

lemma read_step_eq:
  "read_step i s =
     s\<lparr>trace := trace s @ [ModRead (next_read (rx s))],
       values_buf := (values_buf s)[i := word_of_int (next_read (rx s))],
       rx := drop 1 (rx s)\<rparr>"
  by (simp add: read_step_def mod_read_def)

lemma read_loop_7: "read_loop 7 s = s"
  by (simp add: read_loop.simps)

lemma read_loop_6: "read_loop 6 s = read_step 6 s"
  by (subst read_loop.simps) (simp add: read_loop_7)

lemma read_loop_5: "read_loop 5 s = read_step 6 (read_step 5 s)"
  by (subst read_loop.simps) (simp add: read_loop_6)

lemma read_loop_4: "read_loop 4 s = read_step 6 (read_step 5 (read_step 4 s))"
  by (subst read_loop.simps) (simp add: read_loop_5)

lemma read_loop_3: "read_loop 3 s = read_step 6 (read_step 5 (read_step 4 (read_step 3 s)))"
  by (subst read_loop.simps) (simp add: read_loop_4)

lemma read_loop_2:
  "read_loop 2 s = read_step 6 (read_step 5 (read_step 4 (read_step 3 (read_step 2 s))))"
  by (subst read_loop.simps) (simp add: read_loop_3)

lemma read_loop_1:
  "read_loop (Suc 0) s =
     read_step 6 (read_step 5 (read_step 4 (read_step 3 (read_step 2 (read_step 1 s)))))"
  by (subst read_loop.simps) (simp add: read_loop_2 flip: numeral_2_eq_2)

lemma read_loop_unroll:
  "read_loop 0 s =
     read_step 6 (read_step 5 (read_step 4 (read_step 3
       (read_step 2 (read_step 1 (read_step 0 s))))))"
  by (subst read_loop.simps) (simp add: read_loop_1)

lemma read_loop_eq:
  "read_loop 0 s =
     s\<lparr>trace := trace s @ map (\<lambda>k. ModRead (next_read (drop k (rx s)))) [0, 1, 2, 3, 4, 5, 6],
       values_buf := (values_buf s)
         [0 := word_of_int (next_read (rx s)),
          1 := word_of_int (next_read (drop 1 (rx s))),
          2 := word_of_int (next_read (drop 2 (rx s))),
          3 := word_of_int (next_read (drop 3 (rx s))),
          4 := word_of_int (next_read (drop 4 (rx s))),
          5 := word_of_int (next_read (drop 5 (rx s))),
          6 := word_of_int (next_read (drop 6 (rx s)))],
       rx := drop 7 (rx s)\<rparr>"
  by (simp add: read_loop_unroll read_step_eq eval_nat_numeral)

lemma short_write:
  "n \<noteq> 8 \<Longrightarrow>
   request_and_read frame n s =
     (values_buf s ! 4,
      s\<lparr>pin_DE := HIGH, pin_RE := HIGH,
        trace := trace s @
          [DigitalWrite DE HIGH, DigitalWrite RE HIGH, Delay 10, ModWrite frame n]\<rparr>)"
  by (simp add: request_and_read_def digitalWrite_def delay_def mod_write_def)

lemma full_write:
  "request_and_read frame 8 s =
     (let s' = s\<lparr>pin_DE := LOW, pin_RE := LOW,
        trace := trace s @
          [DigitalWrite DE HIGH, DigitalWrite RE HIGH, Delay 10, ModWrite frame 8,
           DigitalWrite DE LOW, DigitalWrite RE LOW] @
          map (\<lambda>k. ModRead (next_read (drop k (rx s)))) [0, 1, 2, 3, 4, 5, 6],
       values_buf := (values_buf s)
         [0 := word_of_int (next_read (rx s)),
          1 := word_of_int (next_read (drop 1 (rx s))),
          2 := word_of_int (next_read (drop 2 (rx s))),
          3 := word_of_int (next_read (drop 3 (rx s))),
          4 := word_of_int (next_read (drop 4 (rx s))),
          5 := word_of_int (next_read (drop 5 (rx s))),
          6 := word_of_int (next_read (drop 6 (rx s)))],
       rx := drop 7 (rx s)\<rparr> in (values_buf s' ! 4, s'))"
  by (simp add: request_and_read_def digitalWrite_def delay_def mod_write_def read_loop_eq Let_def)

lemma full_write_value:
  "4 < length (values_buf s) \<Longrightarrow>
   fst (request_and_read frame 8 s) = word_of_int (next_read (drop 4 (rx s)))"
  by (simp add: full_write Let_def)

lemma values_buf_length:
  "length (values_buf (snd (request_and_read frame n s))) = length (values_buf s)"
  by (cases "n = 8") (simp_all add: full_write short_write Let_def)

lemma short_write_events:
  "n \<noteq> 8 \<Longrightarrow>
   events_of (request_and_read frame n) s =
     [DigitalWrite DE HIGH, DigitalWrite RE HIGH, Delay 10, ModWrite frame n]"
  by (simp add: events_of_def short_write)

lemma full_write_events:
  "events_of (request_and_read frame 8) s =
     [DigitalWrite DE HIGH, DigitalWrite RE HIGH, Delay 10, ModWrite frame 8,
      DigitalWrite DE LOW, DigitalWrite RE LOW] @
     map (\<lambda>k. ModRead (next_read (drop k (rx s)))) [0, 1, 2, 3, 4, 5, 6]"
  by (simp add: events_of_def full_write Let_def)

lemma reading_functions_body:
  "f \<in> set reading_functions \<Longrightarrow> \<exists>frame. f = request_and_read frame"
  by (auto simp: reading_functions_def nitrogen_def phosphorous_def potassium_def
      electroconductivity_def pH_def temperature_def)

lemma next_read_simps:
  "next_read [] = - 1" "next_read (None # q) = - 1" "next_read (Some b # q) = uint b"
  by (simp_all add: next_read_def)

lemma verify_reply_71: "verify reply_71"
  by (simp add: verify_def reply_71_def crc16_eval)

lemma verify_reply_327: "verify reply_327"
  by (simp add: verify_def reply_327_def crc16_eval)

lemma verify_reply_42: "verify reply_42"
  by (simp add: verify_def reply_42_def crc16_eval)

lemma not_verify_reply_bad_crc: "\<not> verify reply_bad_crc"
  by (simp add: verify_def reply_bad_crc_def crc16_eval)

lemma verify_reply_two_registers: "verify reply_two_registers"
  by (simp add: verify_def reply_two_registers_def crc16_eval)

section \<open>A write that is not accepted in full\<close>

text \<open>
  C9. The six reading functions of sketch\_jul23a share the one buffer. When
  \<^verbatim>\<open>mod.write\<close> reports a count other than 8, the function reads nothing, leaves DE
  and RE high, and returns \<open>values[4]\<close> as it stood before the call: the byte that an
  earlier full transaction of any of the six functions returned. A full transaction
  can return that same byte, so the caller cannot tell the two apart.
\<close>

theorem short_write_returns_stale_byte:
  assumes "f \<in> set reading_functions" and "n \<noteq> 8"
  shows "fst (f n s) = values_buf s ! 4 \<and>
    values_buf (snd (f n s)) = values_buf s \<and> rx (snd (f n s)) = rx s \<and>
    \<not> list_ex is_read (events_of (f n) s) \<and>
    pin_DE (snd (f n s)) = HIGH \<and> pin_RE (snd (f n s)) = HIGH \<and>
    (\<forall>g \<in> set reading_functions. \<forall>s0. 4 < length (values_buf s0) \<longrightarrow>
       fst (f n (snd (g 8 s0))) = fst (g 8 s0)) \<and>
    (4 < length (values_buf s) \<longrightarrow>
       fst (f 8 (s\<lparr>rx := replicate 4 None @ [Some (values_buf s ! 4)]\<rparr>)) = fst (f n s))"
proof -
  from assms(1) obtain frame where f: "f = request_and_read frame"
    using reading_functions_body by blast
  have stale: "fst (f n (snd (g 8 s0))) = fst (g 8 s0)"
    if g: "g \<in> set reading_functions" and len: "4 < length (values_buf s0)" for g s0
  proof -
    from g obtain frame' where g': "g = request_and_read frame'"
      using reading_functions_body by blast
    have "fst (f n (snd (g 8 s0))) = values_buf (snd (g 8 s0)) ! 4"
      using assms(2) by (simp add: f short_write)
    also have "\<dots> = fst (g 8 s0)"
      by (simp add: g' full_write Let_def)
    finally show ?thesis .
  qed
  have fresh: "fst (f 8 (s\<lparr>rx := replicate 4 None @ [Some (values_buf s ! 4)]\<rparr>)) = fst (f n s)"
    if "4 < length (values_buf s)"
    using that assms(2) by (simp add: f full_write_value short_write next_read_simps)
  show ?thesis
    using assms(2) stale fresh by (simp add: f short_write short_write_events)
qed

theorem short_write_returns_stale_byte_witness:
  "nitrogen \<in> set reading_functions \<and> (0::nat) \<noteq> 8 \<and>
   fst (phosphorous 8 (power_on (map Some reply_42))) = 0x2A \<and>
   fst (nitrogen 0 (snd (phosphorous 8 (power_on (map Some reply_42))))) = 0x2A \<and>
   pin_DE (snd (nitrogen 0 (snd (phosphorous 8 (power_on (map Some reply_42)))))) = HIGH \<and>
   fst (nitrogen 8 ((snd (phosphorous 8 (power_on (map Some reply_42))))
      \<lparr>rx := replicate 4 None @ [Some 0x2A]\<rparr>)) = 0x2A"
proof -
  let ?s0 = "power_on (map Some reply_42)"
  let ?s1 = "snd (phosphorous 8 ?s0)"
  have a: "nitrogen \<in> set reading_functions" and b: "phosphorous \<in> set reading_functions"
    by (simp_all add: reading_functions_def)
  have c: "(0::nat) \<noteq> 8" by simp
  have d: "fst (phosphorous 8 ?s0) = 0x2A"
    by (simp add: phosphorous_def full_write_value power_on_def reply_42_def next_read_simps)
  have e: "4 < length (values_buf ?s0)"
    by (simp add: power_on_def)
  have e': "4 < length (values_buf ?s1)"
    by (simp add: phosphorous_def values_buf_length power_on_def)
  note t = short_write_returns_stale_byte [OF a c, of ?s1]
  from t have "\<forall>g \<in> set reading_functions. \<forall>s0. 4 < length (values_buf s0) \<longrightarrow>
       fst (nitrogen 0 (snd (g 8 s0))) = fst (g 8 s0)"
    by simp
  with b e have k: "fst (nitrogen 0 ?s1) = fst (phosphorous 8 ?s0)"
    by blast
  from t have "values_buf ?s1 ! 4 = fst (nitrogen 0 ?s1)"
    by simp
  with k d have v: "values_buf ?s1 ! 4 = 0x2A"
    by simp
  from t e' have "fst (nitrogen 8 (?s1\<lparr>rx := replicate 4 None @ [Some (values_buf ?s1 ! 4)]\<rparr>)) =
      fst (nitrogen 0 ?s1)"
    by blast
  with v k d have "fst (nitrogen 8 (?s1\<lparr>rx := replicate 4 None @ [Some 0x2A]\<rparr>)) = 0x2A"
    by simp
  with t a c d k show ?thesis by simp
qed

text \<open>
  C5. A write that reports fewer than 8 bytes should fail the transaction with
  ShortWrite. Evaluated on sketch\_jul23a: with 7 bytes reported, \<^verbatim>\<open>nitrogen()\<close> still
  hands a byte to the caller, the phosphorus value 0x2A of the transaction before, or
  the initial 0 right after power-on.
\<close>

theorem short_write_yields_a_reading:
  "fst (phosphorous 8 (power_on (map Some reply_42))) = 0x2A \<and>
   fst (nitrogen 7 (snd (phosphorous 8 (power_on (map Some reply_42))))) = 0x2A \<and>
   fst (nitrogen 7 (power_on [])) = 0"
proof -
  have "fst (phosphorous 8 (power_on (map Some reply_42))) = 0x2A"
    by (simp add: phosphorous_def full_write_value power_on_def reply_42_def next_read_simps)
  moreover have "fst (nitrogen 7 (snd (phosphorous 8 (power_on (map Some reply_42))))) = 0x2A"
    by (simp add: nitrogen_def phosphorous_def short_write full_write Let_def power_on_def
        reply_42_def next_read_simps)
  moreover have "fst (nitrogen 7 (power_on [])) = 0"
    by (simp add: nitrogen_def short_write power_on_def)
  ultimately show ?thesis by simp
qed

section \<open>The value handed to the caller\<close>

lemma byte_bounds: "0 \<le> uint b" "uint b < 256" for b :: byte
  using uint_lt2p [of b] by simp_all

lemma uint_be16: "uint (be16 hi lo) = uint hi * 256 + uint lo"
proof -
  have "be16 hi lo = word_cat hi lo"
    by (simp add: be16_def word_cat_eq_push_bit_or)
  then have "uint (be16 hi lo) = take_bit 16 (concat_bit 8 (uint lo) (uint hi))"
    by (simp add: word_cat_eq' uint_word_of_int_eq)
  also have "concat_bit 8 (uint lo) (uint hi) = uint hi * 256 + uint lo"
    using byte_bounds [of lo]
    by (simp add: concat_bit_eq take_bit_int_eq_self push_bit_eq_mult)
  also have "take_bit 16 (uint hi * 256 + uint lo) = uint hi * 256 + uint lo"
    using byte_bounds [of lo] byte_bounds [of hi]
    by (intro take_bit_int_eq_self) simp_all
  finally show ?thesis .
qed

lemma unat_be16: "unat (be16 hi lo) = 256 * unat hi + unat lo"
proof -
  have "int (unat (be16 hi lo)) = int (256 * unat hi + unat lo)"
    by (simp add: uint_be16)
  then show ?thesis by (rule of_nat_eq_iff [THEN iffD1])
qed

lemma low_byte_is_register_iff: "ucast lo = be16 hi lo \<longleftrightarrow> hi = 0"
proof -
  have "ucast lo = be16 hi lo \<longleftrightarrow> uint (ucast lo :: u16) = uint (be16 hi lo)"
    by (simp add: word_uint_eq_iff)
  also have "uint (ucast lo :: u16) = uint lo"
    by (simp add: uint_up_ucast is_up)
  also have "uint lo = uint (be16 hi lo) \<longleftrightarrow> uint hi = 0"
    by (simp add: uint_be16)
  also have "uint hi = 0 \<longleftrightarrow> hi = 0"
    by (simp add: uint_0_iff)
  finally show ?thesis .
qed

lemma answering_succeeds:
  "fst (readHoldingRegisters (answering raw) addr qty) = ku8MBSuccess (answering raw)"
  "snd (readHoldingRegisters (answering raw) addr qty) i = raw"
  by (simp_all add: readHoldingRegisters_def answering_def)

lemmas read_unfold = Let_def case_prod_beta

text \<open>
  C2. On a successful transaction sketch\_jul28a works with the full 16-bit register:
  \<^verbatim>\<open>readNitrogen\<close>, \<^verbatim>\<open>readPhosphorous\<close>, \<^verbatim>\<open>readPotassium\<close> and
  \<^verbatim>\<open>readElectroconductivity\<close> hand it to the caller as it is, \<^verbatim>\<open>readPH\<close> and
  \<^verbatim>\<open>readTemperature\<close> its quotient; for a register made of the payload bytes \<open>hi\<close>,
  \<open>lo\<close> that is 256 hi + lo. Each reading function of sketch\_jul23a instead returns
  \<open>values[4]\<close>, the low payload byte \<open>lo\<close> alone, which is the register value only
  when \<open>hi\<close> is 0.
\<close>

theorem caller_gets_register_or_low_byte:
  "(fst (readHoldingRegisters node 0x1E 1) = ku8MBSuccess node \<longrightarrow>
      readNitrogen node = real (unat (snd (readHoldingRegisters node 0x1E 1) 0))) \<and>
   (fst (readHoldingRegisters node 0x1F 1) = ku8MBSuccess node \<longrightarrow>
      readPhosphorous node = real (unat (snd (readHoldingRegisters node 0x1F 1) 0))) \<and>
   (fst (readHoldingRegisters node 0x20 1) = ku8MBSuccess node \<longrightarrow>
      readPotassium node = real (unat (snd (readHoldingRegisters node 0x20 1) 0))) \<and>
   (fst (readHoldingRegisters node 0x15 1) = ku8MBSuccess node \<longrightarrow>
      readElectroconductivity node =
        real (unat (snd (readHoldingRegisters node 0x15 1) 0))) \<and>
   (fst (readHoldingRegisters node 0x06 1) = ku8MBSuccess node \<longrightarrow>
      readPH node = float_div (unat (snd (readHoldingRegisters node 0x06 1) 0)) 100) \<and>
   (fst (readHoldingRegisters node 0x12 1) = ku8MBSuccess node \<longrightarrow>
      readTemperature node =
        float_div (unat (snd (readHoldingRegisters node 0x12 1) 0)) 10) \<and>
   readNitrogen (answering (be16 hi lo)) = real (256 * unat hi + unat lo) \<and>
   unat (be16 hi lo) = 256 * unat hi + unat lo \<and>
   (\<forall>f \<in> set reading_functions. 4 < length (values_buf s) \<longrightarrow>
      fst (f 8 (s\<lparr>rx := map Some [b0, b1, b2, hi, lo, c0, c1]\<rparr>)) = lo) \<and>
   (ucast lo = be16 hi lo \<longleftrightarrow> hi = 0)"
proof -
  have low: "fst (f 8 (s\<lparr>rx := map Some [b0, b1, b2, hi, lo, c0, c1]\<rparr>)) = lo"
    if "f \<in> set reading_functions" and "4 < length (values_buf s)" for f
  proof -
    from that(1) obtain frame where f: "f = request_and_read frame"
      using reading_functions_body by blast
    show ?thesis
      using that(2) by (simp add: f full_write_value next_read_simps)
  qed
  have "readNitrogen (answering (be16 hi lo)) = real (unat (be16 hi lo))"
    by (simp add: readNitrogen_def read_unfold answering_succeeds del: of_nat_unat)
  then have full: "readNitrogen (answering (be16 hi lo)) = real (256 * unat hi + unat lo)"
    by (simp only: unat_be16)
  have six:
    "fst (readHoldingRegisters node 0x1E 1) = ku8MBSuccess node \<longrightarrow>
      readNitrogen node = real (unat (snd (readHoldingRegisters node 0x1E 1) 0))"
    "fst (readHoldingRegisters node 0x1F 1) = ku8MBSuccess node \<longrightarrow>
      readPhosphorous node = real (unat (snd (readHoldingRegisters node 0x1F 1) 0))"
    "fst (readHoldingRegisters node 0x20 1) = ku8MBSuccess node \<longrightarrow>
      readPotassium node = real (unat (snd (readHoldingRegisters node 0x20 1) 0))"
    "fst (readHoldingRegisters node 0x15 1) = ku8MBSuccess node \<longrightarrow>
      readElectroconductivity node =
        real (unat (snd (readHoldingRegisters node 0x15 1) 0))"
    "fst (readHoldingRegisters node 0x06 1) = ku8MBSuccess node \<longrightarrow>
      readPH node = float_div (unat (snd (readHoldingRegisters node 0x06 1) 0)) 100"
    "fst (readHoldingRegisters node 0x12 1) = ku8MBSuccess node \<longrightarrow>
      readTemperature node =
        float_div (unat (snd (readHoldingRegisters node 0x12 1) 0)) 10"
    by (simp_all add: readNitrogen_def readPhosphorous_def readPotassium_def
        readElectroconductivity_def readPH_def readTemperature_def read_unfold
        del: of_nat_unat)
  from six full low show ?thesis
    by (simp only: unat_be16 low_byte_is_register_iff simp_thms) blast
qed

theorem caller_gets_register_or_low_byte_witness:
  "fst (readHoldingRegisters (answering 327) 0x1E 1) = ku8MBSuccess (answering 327) \<and>
   readNitrogen (answering 327) = 327 \<and>
   verify reply_327 \<and> be16 (reply_327 ! 3) (reply_327 ! 4) = 327 \<and>
   nitrogen \<in> set reading_functions \<and> 4 < length (values_buf (power_on [])) \<and>
   fst (nitrogen 8 (power_on (map Some reply_327))) = 0x47 \<and>
   verify reply_71 \<and> be16 (reply_71 ! 3) (reply_71 ! 4) = 71 \<and>
   fst (nitrogen 8 (power_on (map Some reply_71))) = 0x47"
proof -
  have ok: "fst (readHoldingRegisters (answering 327) 0x1E 1) = ku8MBSuccess (answering 327)"
    by (simp add: answering_succeeds)
  have raw: "snd (readHoldingRegisters (answering 327) 0x1E 1) 0 = 327"
    by (simp add: answering_succeeds)
  have a: "nitrogen \<in> set reading_functions"
    by (simp add: reading_functions_def)
  have b: "4 < length (values_buf (power_on []))"
    by (simp add: power_on_def)
  have s327: "(power_on [])\<lparr>rx := map Some [0x01, 0x03, 0x02, 0x01, 0x47, 0xF9, 0xE6]\<rparr> =
      power_on (map Some reply_327)"
    and s71: "(power_on [])\<lparr>rx := map Some [0x01, 0x03, 0x02, 0x00, 0x47, 0xF8, 0x76]\<rparr> =
      power_on (map Some reply_71)"
    by (simp_all add: power_on_def reply_327_def reply_71_def)
  note t327 = caller_gets_register_or_low_byte
    [of "answering 327" "0x01" "0x47" "power_on []" "0x01" "0x03" "0x02" "0xF9" "0xE6"]
  note t71 = caller_gets_register_or_low_byte
    [of "answering 327" "0x00" "0x47" "power_on []" "0x01" "0x03" "0x02" "0xF8" "0x76"]
  from t327 ok have "readNitrogen (answering 327) =
      real (unat (snd (readHoldingRegisters (answering 327) 0x1E 1) 0))"
    by blast
  then have v: "readNitrogen (answering 327) = 327"
    by (simp add: raw)
  from t327 a b have "fst (nitrogen 8 ((power_on [])
      \<lparr>rx := map Some [0x01, 0x03, 0x02, 0x01, 0x47, 0xF9, 0xE6]\<rparr>)) = 0x47"
    by blast
  then have n327: "fst (nitrogen 8 (power_on (map Some reply_327))) = 0x47"
    by (simp only: s327)
  from t71 a b have "fst (nitrogen 8 ((power_on [])
      \<lparr>rx := map Some [0x01, 0x03, 0x02, 0x00, 0x47, 0xF8, 0x76]\<rparr>)) = 0x47"
    by blast
  then have n71: "fst (nitrogen 8 (power_on (map Some reply_71))) = 0x47"
    by (simp only: s71)
  have r327: "be16 (reply_327 ! 3) (reply_327 ! 4) = 327"
    by (simp add: be16_def reply_327_def)
  have r71: "be16 (reply_71 ! 3) (reply_71 ! 4) = 71"
    by (simp add: be16_def reply_71_def)
  from ok v verify_reply_327 r327 a b n327 verify_reply_71 r71 n71 show ?thesis
    by blast
qed

section \<open>Replies are not checked\<close>

lemma read_calls_failure:
  "(r, addr, qty) \<in> set read_calls \<Longrightarrow>
   fst (readHoldingRegisters node addr qty) \<noteq> ku8MBSuccess node \<Longrightarrow> r node = - 1"
  by (auto simp: read_calls_def readNitrogen_def readPhosphorous_def readPotassium_def
      readElectroconductivity_def readPH_def readTemperature_def split: prod.splits)

text \<open>
  C3, as the claim states it, fails: sketch\_jul23a returns the payload byte of a
  reply whose check bytes are wrong.
\<close>

theorem no_crc_check_counterexample:
  "\<not> verify reply_bad_crc \<and> fst (nitrogen 8 (power_on (map Some reply_bad_crc))) = 0x47"
proof -
  have "fst (nitrogen 8 (power_on (map Some reply_bad_crc))) = 0x47"
    by (simp add: nitrogen_def full_write_value power_on_def reply_bad_crc_def next_read_simps)
  then show ?thesis
    using not_verify_reply_bad_crc by simp
qed

text \<open>
  C3, amended. sketch\_jul23a makes no CRC check: after a full write each of the six
  reading functions returns the fifth byte read, whatever the two check bytes \<open>c0\<close>,
  \<open>c1\<close> (and the four bytes before) are. In sketch\_jul28a every result code other
  than \<^verbatim>\<open>ku8MBSuccess\<close> reaches the caller as the sentinel -1.0.
\<close>

theorem no_crc_check_in_reading_functions:
  "(\<forall>f \<in> set reading_functions. 4 < length (values_buf s) \<longrightarrow>
      fst (f 8 (s\<lparr>rx := map Some [b0, b1, b2, b3, b4, c0, c1]\<rparr>)) = b4) \<and>
   (\<forall>(r, addr, qty) \<in> set read_calls.
      fst (readHoldingRegisters node addr qty) \<noteq> ku8MBSuccess node \<longrightarrow> r node = - 1)"
proof -
  have "fst (f 8 (s\<lparr>rx := map Some [b0, b1, b2, b3, b4, c0, c1]\<rparr>)) = b4"
    if "f \<in> set reading_functions" and "4 < length (values_buf s)" for f
  proof -
    from that(1) obtain frame where f: "f = request_and_read frame"
      using reading_functions_body by blast
    show ?thesis
      using that(2) by (simp add: f full_write_value next_read_simps)
  qed
  then show ?thesis
    using read_calls_failure by blast
qed

theorem no_crc_check_in_reading_functions_witness:
  "nitrogen \<in> set reading_functions \<and> 4 < length (values_buf (power_on [])) \<and>
   fst (nitrogen 8 ((power_on [])\<lparr>rx := map Some [0x01, 0x03, 0x02, 0x00, 0x47, 0x00, 0x00]\<rparr>)) = 0x47 \<and>
   (readNitrogen, 0x1E, 1) \<in> set read_calls \<and>
   fst (readHoldingRegisters (failing 0xE3) 0x1E 1) \<noteq> ku8MBSuccess (failing 0xE3) \<and>
   readNitrogen (failing 0xE3) = - 1"
proof -
  have a: "nitrogen \<in> set reading_functions"
    by (simp add: reading_functions_def)
  have b: "4 < length (values_buf (power_on []))"
    by (simp add: power_on_def)
  have c: "(readNitrogen, 0x1E, 1) \<in> set read_calls"
    by (simp add: read_calls_def)
  have d: "fst (readHoldingRegisters (failing 0xE3) 0x1E 1) \<noteq> ku8MBSuccess (failing 0xE3)"
    by (simp add: readHoldingRegisters_def failing_def)
  note t = no_crc_check_in_reading_functions
    [of "power_on []" "0x01" "0x03" "0x02" "0x00" "0x47" "0x00" "0x00" "failing 0xE3"]
  from t a b have "fst (nitrogen 8 ((power_on [])\<lparr>rx := map Some [0x01, 0x03, 0x02, 0x00, 0x47, 0x00, 0x00]\<rparr>)) = 0x47"
    by blast
  moreover from t c d have "readNitrogen (failing 0xE3) = - 1"
    by blast
  ultimately show ?thesis
    using a b c d by simp
qed

section \<open>Reading without a timeout\<close>

lemma seven_reads: "length (filter is_read (events_of (request_and_read frame 8) s)) = 7"
  by (simp add: full_write_events)

lemma below_seven: "k < 7 \<Longrightarrow> k = 0 \<or> k = 1 \<or> k = 2 \<or> k = 3 \<or> k = 4 \<or> k = 5 \<or> k = (6::nat)"
  by arith

lemma full_write_buffer:
  assumes "7 \<le> length (values_buf s)" and "k < 7"
  shows "values_buf (snd (request_and_read frame 8 s)) ! k =
     word_of_int (next_read (drop k (rx s)))"
proof -
  from assms(1) have "values_buf s \<noteq> []"
    by auto
  with below_seven [OF assms(2)] assms(1) show ?thesis
    by (auto simp: full_write Let_def)
qed

lemma full_write_rx: "rx (snd (request_and_read frame 8 s)) = drop 7 (rx s)"
  by (simp add: full_write Let_def)

lemma single_register_body:
  "f \<in> set [nitrogen, phosphorous, potassium, electroconductivity, pH] \<Longrightarrow>
   \<exists>frame. f = request_and_read frame"
  by (auto simp: nitrogen_def phosphorous_def potassium_def electroconductivity_def pH_def)

text \<open>
  C6, as the claim states it, fails: with no byte delivered \<^verbatim>\<open>nitrogen()\<close> returns the
  value 0xFF, and with only five bytes delivered it returns the fifth, a missing byte
  being stored as 0xFF. And \<^verbatim>\<open>temperature()\<close>, whose frame asks for two registers,
  reads 7 bytes of the 9-byte reply and leaves the last two in the port.
\<close>

theorem no_timeout_counterexample:
  "fst (nitrogen 8 (power_on [])) = 0xFF \<and>
   fst (nitrogen 8 (power_on (map Some (take 5 reply_71)))) = 0x47 \<and>
   values_buf (snd (nitrogen 8 (power_on (map Some (take 5 reply_71))))) ! 5 = 0xFF \<and>
   verify reply_two_registers \<and>
   rx (snd (temperature 8 (power_on (map Some reply_two_registers)))) =
     [Some 0xDA, Some 0x4F]"
proof -
  have "fst (nitrogen 8 (power_on [])) = 0xFF"
    by (simp add: nitrogen_def full_write_value power_on_def next_read_simps)
  moreover have "fst (nitrogen 8 (power_on (map Some (take 5 reply_71)))) = 0x47"
    by (simp add: nitrogen_def full_write_value power_on_def reply_71_def next_read_simps)
  moreover have "values_buf (snd (nitrogen 8 (power_on (map Some (take 5 reply_71))))) ! 5 = 0xFF"
    by (simp add: nitrogen_def full_write_buffer power_on_def reply_71_def next_read_simps)
  moreover have "rx (snd (temperature 8 (power_on (map Some reply_two_registers)))) =
     [Some 0xDA, Some 0x4F]"
    by (simp add: temperature_def full_write_rx power_on_def reply_two_registers_def)
  ultimately show ?thesis
    using verify_reply_two_registers by simp
qed

text \<open>
  C6, amended. In sketch\_jul23a, after a full write, each single-register reading
  function calls \<^verbatim>\<open>mod.read()\<close> exactly 7 times without waiting, stores the results as
  bytes in \<open>values[0..6]\<close> (0xFF where nothing was available) and returns \<open>values[4]\<close>;
  there is no timeout and no error: a link that delivers nothing yields the value 0xFF.
\<close>

theorem seven_reads_without_timeout:
  assumes "f \<in> set [nitrogen, phosphorous, potassium, electroconductivity, pH]"
    and "length (values_buf s) = 11"
  shows "length (filter is_read (events_of (f 8) s)) = 7 \<and>
    rx (snd (f 8 s)) = drop 7 (rx s) \<and>
    (\<forall>k<7. values_buf (snd (f 8 s)) ! k = word_of_int (next_read (drop k (rx s)))) \<and>
    fst (f 8 s) = values_buf (snd (f 8 s)) ! 4 \<and>
    (\<forall>k<7. next_read (drop k (rx s)) = - 1 \<longrightarrow> values_buf (snd (f 8 s)) ! k = 0xFF) \<and>
    (rx s = [] \<longrightarrow> fst (f 8 s) = 0xFF)"
proof -
  from assms(1) obtain frame where f: "f = request_and_read frame"
    using single_register_body by blast
  have len: "7 \<le> length (values_buf s)" "4 < length (values_buf s)"
    using assms(2) by simp_all
  have buf: "values_buf (snd (f 8 s)) ! k = word_of_int (next_read (drop k (rx s)))"
    if "k < 7" for k
    using that len(1) by (simp add: f full_write_buffer)
  have val: "fst (f 8 s) = word_of_int (next_read (drop 4 (rx s)))"
    using len(2) by (simp add: f full_write_value)
  have "fst (f 8 s) = values_buf (snd (f 8 s)) ! 4"
    using buf [of 4] val by simp
  moreover have "values_buf (snd (f 8 s)) ! k = 0xFF"
    if "k < 7" and "next_read (drop k (rx s)) = - 1" for k
    using buf [OF that(1)] that(2) by simp
  moreover have "fst (f 8 s) = 0xFF" if "rx s = []"
    using val that by (simp add: next_read_simps)
  ultimately show ?thesis
    using buf by (simp add: f seven_reads full_write_rx)
qed

theorem seven_reads_without_timeout_witness:
  "nitrogen \<in> set [nitrogen, phosphorous, potassium, electroconductivity, pH] \<and>
   length (values_buf (power_on [])) = 11 \<and> rx (power_on []) = [] \<and>
   fst (nitrogen 8 (power_on [])) = 0xFF \<and>
   values_buf (snd (nitrogen 8 (power_on []))) ! 4 = 0xFF"
proof -
  have a: "nitrogen \<in> set [nitrogen, phosphorous, potassium, electroconductivity, pH]"
    by simp
  have b: "length (values_buf (power_on [])) = 11" and c: "rx (power_on []) = []"
    by (simp_all add: power_on_def)
  from seven_reads_without_timeout [OF a b] a b c show ?thesis
    by (simp add: next_read_simps)
qed

section \<open>Direction of the transceiver\<close>

lemma settled_short:
  "n \<noteq> 8 \<Longrightarrow> settled_before_write (events_of (request_and_read frame n) s)"
  by (simp add: short_write_events settled_before_write_def)

lemma settled_full: "settled_before_write (events_of (request_and_read frame 8) s)"
  by (simp add: full_write_events settled_before_write_def)

lemma switch_once_full:
  "once_after_write_before_read (DigitalWrite DE LOW) (events_of (request_and_read frame 8) s)"
  "once_after_write_before_read (DigitalWrite RE LOW) (events_of (request_and_read frame 8) s)"
  by (simp_all add: full_write_events once_after_write_before_read_def)

lemma callbacks_trace:
  "trace (preTransmission b) = trace b @ [DigitalWrite RE HIGH, DigitalWrite DE HIGH]"
  "trace (postTransmission b) = trace b @ [DigitalWrite DE LOW, DigitalWrite RE LOW]"
  by (simp_all add: preTransmission_def postTransmission_def digitalWrite_def)

text \<open>
  C7, as the claim states it, fails: when the write reports 7 bytes, \<^verbatim>\<open>nitrogen()\<close>
  never sets DE or RE low; and \<^verbatim>\<open>preTransmission\<close> of sketch\_jul28a raises the pins
  without any delay.
\<close>

theorem direction_protocol_counterexample:
  "\<not> once_after_write_before_read (DigitalWrite DE LOW) (events_of (nitrogen 7) (power_on [])) \<and>
   \<not> once_after_write_before_read (DigitalWrite RE LOW) (events_of (nitrogen 7) (power_on [])) \<and>
   \<not> list_ex is_delay (trace (preTransmission \<lparr>pin_DE = LOW, pin_RE = LOW, trace = []\<rparr>))"
  by (simp add: nitrogen_def short_write_events once_after_write_before_read_def callbacks_trace)

text \<open>
  C7, amended. In sketch\_jul23a every call of a reading function raises DE and RE and
  completes the delay before the frame is written; when the write reports 8 bytes, DE
  and RE are each set low exactly once, after the write and before the first read. In
  sketch\_jul28a \<^verbatim>\<open>preTransmission\<close> raises RE and DE with no delay and
  \<^verbatim>\<open>postTransmission\<close> lowers DE and RE.
\<close>

theorem direction_protocol_on_full_write:
  "(\<forall>f \<in> set reading_functions.
      settled_before_write (events_of (f n) s) \<and>
      (n = 8 \<longrightarrow>
         once_after_write_before_read (DigitalWrite DE LOW) (events_of (f n) s) \<and>
         once_after_write_before_read (DigitalWrite RE LOW) (events_of (f n) s))) \<and>
   trace (preTransmission b) = trace b @ [DigitalWrite RE HIGH, DigitalWrite DE HIGH] \<and>
   trace (postTransmission b) = trace b @ [DigitalWrite DE LOW, DigitalWrite RE LOW]"
proof -
  have "settled_before_write (events_of (f n) s) \<and>
      (n = 8 \<longrightarrow>
         once_after_write_before_read (DigitalWrite DE LOW) (events_of (f n) s) \<and>
         once_after_write_before_read (DigitalWrite RE LOW) (events_of (f n) s))"
    if "f \<in> set reading_functions" for f
  proof -
    from that obtain frame where f: "f = request_and_read frame"
      using reading_functions_body by blast
    show ?thesis
      by (cases "n = 8") (simp_all add: f settled_short settled_full switch_once_full)
  qed
  then show ?thesis
    by (simp add: callbacks_trace)
qed

theorem direction_protocol_on_full_write_witness:
  "nitrogen \<in> set reading_functions \<and>
   events_of (nitrogen 8) (power_on (map Some reply_71)) =
     [DigitalWrite DE HIGH, DigitalWrite RE HIGH, Delay 10, ModWrite nitro 8,
      DigitalWrite DE LOW, DigitalWrite RE LOW,
      ModRead 1, ModRead 3, ModRead 2, ModRead 0, ModRead 71, ModRead 248, ModRead 118] \<and>
   settled_before_write (events_of (nitrogen 8) (power_on (map Some reply_71))) \<and>
   once_after_write_before_read (DigitalWrite DE LOW)
     (events_of (nitrogen 8) (power_on (map Some reply_71))) \<and>
   once_after_write_before_read (DigitalWrite RE LOW)
     (events_of (nitrogen 8) (power_on (map Some reply_71)))"
proof -
  have a: "nitrogen \<in> set reading_functions"
    by (simp add: reading_functions_def)
  have e: "events_of (nitrogen 8) (power_on (map Some reply_71)) =
     [DigitalWrite DE HIGH, DigitalWrite RE HIGH, Delay 10, ModWrite nitro 8,
      DigitalWrite DE LOW, DigitalWrite RE LOW,
      ModRead 1, ModRead 3, ModRead 2, ModRead 0, ModRead 71, ModRead 248, ModRead 118]"
    by (simp add: nitrogen_def full_write_events power_on_def reply_71_def next_read_simps)
  note t = direction_protocol_on_full_write [of 8 "power_on (map Some reply_71)"]
  from t a have "settled_before_write (events_of (nitrogen 8) (power_on (map Some reply_71))) \<and>
      ((8::nat) = 8 \<longrightarrow>
         once_after_write_before_read (DigitalWrite DE LOW)
           (events_of (nitrogen 8) (power_on (map Some reply_71))) \<and>
         once_after_write_before_read (DigitalWrite RE LOW)
           (events_of (nitrogen 8) (power_on (map Some reply_71))))"
    by blast
  with a e show ?thesis by simp
qed

section \<open>Scaling in sketch\_jul28a\<close>

text \<open>
  The binary32 quotient: the scaling stops where the 24-bit significand is reached, and
  rounding moves the scaled quotient by at most one half, so the result is within a
  relative error of \<open>1 / 2 ^ 24\<close> of the exact quotient.
\<close>

lemma float_shift_reached:
  "n = 0 \<or> d * 2 ^ 23 \<le> n * 2 ^ float_shift n d k"
  by (induction n d k rule: float_shift.induct) (subst float_shift.simps, simp)

lemma round_half_even_close:
  fixes N d q r m :: nat
  assumes "0 < d" and "q = N div d" and "r = N mod d"
    and "m = (if d < 2 * r \<or> (2 * r = d \<and> odd q) then q + 1 else q)"
  shows "2 * \<bar>int m * int d - int N\<bar> \<le> int d"
proof -
  have N: "int N = int q * int d + int r"
    using assms(2,3) by (metis div_mult_mod_eq of_nat_add of_nat_mult)
  show ?thesis
  proof (cases "d < 2 * r \<or> (2 * r = d \<and> odd q)")
    case True
    then have "m = q + 1" using assms(4) by simp
    then have "int m * int d - int N = int d - int r"
      using N by (simp add: algebra_simps)
    moreover have "int r < int d" using assms(1,3) by simp
    moreover have "int d \<le> 2 * int r" using True by auto
    ultimately show ?thesis by simp
  next
    case False
    then have "m = q" using assms(4) by simp
    then have "int m * int d - int N = - int r"
      using N by simp
    moreover have "2 * int r \<le> int d" using False by auto
    ultimately show ?thesis by simp
  qed
qed

lemma float_div_error:
  assumes "0 < d"
  shows "\<bar>float_div n d - real n / real d\<bar> \<le> real n / real d / 2 ^ 24"
proof -
  define k where "k = float_shift n d 0"
  define N where "N = n * 2 ^ k"
  define q where "q = N div d"
  define r where "r = N mod d"
  define m where "m = (if d < 2 * r \<or> (2 * r = d \<and> odd q) then q + 1 else q)"
  have fd: "float_div n d = real m / 2 ^ k"
    by (simp add: float_div_def Let_def k_def N_def q_def r_def m_def)
  have close: "2 * \<bar>int m * int d - int N\<bar> \<le> int d"
    using assms q_def r_def m_def by (rule round_half_even_close)
  have big: "n = 0 \<or> d * 2 ^ 23 \<le> N"
    unfolding N_def k_def by (rule float_shift_reached)
  have key: "\<bar>int m * int d - int N\<bar> * 2 ^ 24 \<le> int N"
  proof (cases "n = 0")
    case True
    then have "N = 0" "m = 0" by (simp_all add: N_def m_def q_def r_def)
    then show ?thesis by simp
  next
    case False
    with big have "int d * 2 ^ 23 \<le> int N"
      by (metis of_nat_mult of_nat_le_iff of_nat_numeral of_nat_power)
    with close show ?thesis by simp
  qed
  have keyr: "\<bar>real m * real d - real N\<bar> * 2 ^ 24 \<le> real N"
  proof -
    have "real_of_int (\<bar>int m * int d - int N\<bar> * 2 ^ 24) \<le> real_of_int (int N)"
      using key by (rule of_int_le_iff [THEN iffD2])
    then show ?thesis by simp
  qed
  have dpos: "0 < real d" and kpos: "(0::real) < 2 ^ k"
    using assms by simp_all
  have n: "real n = real N / 2 ^ k"
    by (simp add: N_def)
  have "float_div n d - real n / real d = (real m * real d - real N) / (2 ^ k * real d)"
    using dpos kpos by (simp add: fd n field_simps)
  then have "\<bar>float_div n d - real n / real d\<bar> =
      \<bar>real m * real d - real N\<bar> / (2 ^ k * real d)"
    using dpos kpos by (simp add: abs_mult)
  also have "\<dots> \<le> (real N / 2 ^ 24) / (2 ^ k * real d)"
    using keyr dpos kpos by (intro divide_right_mono) (simp_all add: field_simps)
  also have "\<dots> = real n / real d / 2 ^ 24"
    using dpos kpos by (simp add: n field_simps)
  finally show ?thesis .
qed

lemma float_div_nonneg: "0 \<le> float_div n d"
  by (simp add: float_div_def Let_def)

text \<open>The quotients of the examples, and of the register value 1.\<close>

lemma float_div_725: "float_div 725 100 = 7.25"
proof -
  have "float_shift 725 100 0 = 21"
    by (simp add: float_shift.simps)
  then show ?thesis
    by (simp add: float_div_def)
qed

lemma float_div_250: "float_div 250 10 = 25"
proof -
  have "float_shift 250 10 0 = 19"
    by (simp add: float_shift.simps)
  then show ?thesis
    by (simp add: float_div_def)
qed

lemma float_div_1_100: "float_div (Suc 0) 100 = 10737418 / 2 ^ 30"
proof -
  have "float_shift (Suc 0) 100 0 = 30"
    by (simp add: float_shift.simps)
  then show ?thesis
    by (simp add: float_div_def)
qed

lemma float_div_1_10: "float_div (Suc 0) 10 = 13421773 / 2 ^ 27"
proof -
  have "float_shift (Suc 0) 10 0 = 27"
    by (simp add: float_shift.simps)
  then show ?thesis
    by (simp add: float_div_def)
qed

lemma readPH_answering: "readPH (answering raw) = float_div (unat raw) 100"
  by (simp add: readPH_def read_unfold answering_succeeds)

lemma readTemperature_answering: "readTemperature (answering raw) = float_div (unat raw) 10"
  by (simp add: readTemperature_def read_unfold answering_succeeds)

text \<open>
  C4, as the claim states it, fails: for the register value 1 \<^verbatim>\<open>readPH\<close> returns the
  float 10737418 / 2^30 (0x3C23D70A), which is not 0.01, and \<^verbatim>\<open>readTemperature\<close>
  returns 13421773 / 2^27 (0x3DCCCCCD), which is not 0.1.
\<close>

theorem exact_scaling_counterexample:
  "readPH (answering 1) = 10737418 / 2 ^ 30 \<and>
   readPH (answering 1) \<noteq> real (unat (1 :: u16)) * 0.01 \<and>
   readTemperature (answering 1) = 13421773 / 2 ^ 27 \<and>
   readTemperature (answering 1) \<noteq> real (unat (1 :: u16)) * 0.1"
  by (simp add: readPH_answering readTemperature_answering float_div_1_100 float_div_1_10)

text \<open>
  C4, amended. For every raw register value of a successful read, \<^verbatim>\<open>readNitrogen\<close>,
  \<^verbatim>\<open>readPhosphorous\<close>, \<^verbatim>\<open>readPotassium\<close> and \<^verbatim>\<open>readElectroconductivity\<close> return
  raw times 1.0 plus 0 exactly; \<^verbatim>\<open>readPH\<close> returns the float quotient raw / 100, which
  is raw times 0.01 up to a relative rounding error of 2^-24, and \<^verbatim>\<open>readTemperature\<close>
  the float quotient raw / 10, raw times 0.1 up to the same error. Raw 725 gives
  exactly 7.25, raw 250 exactly 25.0, raw 320 for nitrogen exactly 320.0.
\<close>

theorem scaling_up_to_float_rounding:
  "(fst (readHoldingRegisters node 0x06 1) = ku8MBSuccess node \<longrightarrow>
      \<bar>readPH node - real (unat (snd (readHoldingRegisters node 0x06 1) 0)) * 0.01\<bar>
        \<le> real (unat (snd (readHoldingRegisters node 0x06 1) 0)) * 0.01 / 2 ^ 24) \<and>
   (fst (readHoldingRegisters node 0x12 1) = ku8MBSuccess node \<longrightarrow>
      \<bar>readTemperature node - real (unat (snd (readHoldingRegisters node 0x12 1) 0)) * 0.1\<bar>
        \<le> real (unat (snd (readHoldingRegisters node 0x12 1) 0)) * 0.1 / 2 ^ 24) \<and>
   (fst (readHoldingRegisters node 0x1E 1) = ku8MBSuccess node \<longrightarrow>
      readNitrogen node = real (unat (snd (readHoldingRegisters node 0x1E 1) 0)) * 1.0 + 0) \<and>
   (fst (readHoldingRegisters node 0x1F 1) = ku8MBSuccess node \<longrightarrow>
      readPhosphorous node = real (unat (snd (readHoldingRegisters node 0x1F 1) 0)) * 1.0 + 0) \<and>
   (fst (readHoldingRegisters node 0x20 1) = ku8MBSuccess node \<longrightarrow>
      readPotassium node = real (unat (snd (readHoldingRegisters node 0x20 1) 0)) * 1.0 + 0) \<and>
   (fst (readHoldingRegisters node 0x15 1) = ku8MBSuccess node \<longrightarrow>
      readElectroconductivity node =
        real (unat (snd (readHoldingRegisters node 0x15 1) 0)) * 1.0 + 0) \<and>
   readPH (answering 725) = 7.25 \<and> readTemperature (answering 250) = 25.0 \<and>
   readNitrogen (answering 320) = 320.0"
proof -
  have e100: "\<bar>float_div n 100 - real n * 0.01\<bar> \<le> real n * 0.01 / 2 ^ 24" for n
    using float_div_error [of 100 n] by simp
  have e10: "\<bar>float_div n 10 - real n * 0.1\<bar> \<le> real n * 0.1 / 2 ^ 24" for n
    using float_div_error [of 10 n] by simp
  have ph: "fst (readHoldingRegisters node 0x06 1) = ku8MBSuccess node \<longrightarrow>
      \<bar>readPH node - real (unat (snd (readHoldingRegisters node 0x06 1) 0)) * 0.01\<bar>
        \<le> real (unat (snd (readHoldingRegisters node 0x06 1) 0)) * 0.01 / 2 ^ 24"
    using e100 [of "unat (snd (readHoldingRegisters node 0x06 1) 0)"]
    by (simp add: readPH_def read_unfold del: of_nat_unat)
  have te: "fst (readHoldingRegisters node 0x12 1) = ku8MBSuccess node \<longrightarrow>
      \<bar>readTemperature node - real (unat (snd (readHoldingRegisters node 0x12 1) 0)) * 0.1\<bar>
        \<le> real (unat (snd (readHoldingRegisters node 0x12 1) 0)) * 0.1 / 2 ^ 24"
    using e10 [of "unat (snd (readHoldingRegisters node 0x12 1) 0)"]
    by (simp add: readTemperature_def read_unfold del: of_nat_unat)
  have four:
    "fst (readHoldingRegisters node 0x1E 1) = ku8MBSuccess node \<longrightarrow>
      readNitrogen node = real (unat (snd (readHoldingRegisters node 0x1E 1) 0)) * 1.0 + 0"
    "fst (readHoldingRegisters node 0x1F 1) = ku8MBSuccess node \<longrightarrow>
      readPhosphorous node = real (unat (snd (readHoldingRegisters node 0x1F 1) 0)) * 1.0 + 0"
    "fst (readHoldingRegisters node 0x20 1) = ku8MBSuccess node \<longrightarrow>
      readPotassium node = real (unat (snd (readHoldingRegisters node 0x20 1) 0)) * 1.0 + 0"
    "fst (readHoldingRegisters node 0x15 1) = ku8MBSuccess node \<longrightarrow>
      readElectroconductivity node =
        real (unat (snd (readHoldingRegisters node 0x15 1) 0)) * 1.0 + 0"
    by (simp_all add: readNitrogen_def readPhosphorous_def readPotassium_def
        readElectroconductivity_def read_unfold del: of_nat_unat)
  have ex: "readPH (answering 725) = 7.25" "readTemperature (answering 250) = 25.0"
    "readNitrogen (answering 320) = 320.0"
    by (simp_all add: readPH_answering readTemperature_answering float_div_725 float_div_250
        readNitrogen_def read_unfold answering_succeeds)
  from ph te four ex show ?thesis
    by blast
qed

theorem scaling_up_to_float_rounding_witness:
  "fst (readHoldingRegisters (answering 725) 0x06 1) = ku8MBSuccess (answering 725) \<and>
   snd (readHoldingRegisters (answering 725) 0x06 1) 0 = 725 \<and>
   readPH (answering 725) = 7.25 \<and>
   \<bar>readPH (answering 725) - real (unat (725 :: u16)) * 0.01\<bar>
     \<le> real (unat (725 :: u16)) * 0.01 / 2 ^ 24 \<and>
   fst (readHoldingRegisters (answering 320) 0x1E 1) = ku8MBSuccess (answering 320) \<and>
   readNitrogen (answering 320) = 320.0"
proof -
  have ok: "fst (readHoldingRegisters (answering 725) 0x06 1) = ku8MBSuccess (answering 725)"
    and raw: "snd (readHoldingRegisters (answering 725) 0x06 1) 0 = 725"
    and ok': "fst (readHoldingRegisters (answering 320) 0x1E 1) = ku8MBSuccess (answering 320)"
    by (simp_all add: answering_succeeds)
  note t = scaling_up_to_float_rounding [of "answering 725"]
  from t ok have "\<bar>readPH (answering 725) -
      real (unat (snd (readHoldingRegisters (answering 725) 0x06 1) 0)) * 0.01\<bar>
        \<le> real (unat (snd (readHoldingRegisters (answering 725) 0x06 1) 0)) * 0.01 / 2 ^ 24"
    by blast
  then have b: "\<bar>readPH (answering 725) - real (unat (725 :: u16)) * 0.01\<bar>
     \<le> real (unat (725 :: u16)) * 0.01 / 2 ^ 24"
    by (simp only: raw)
  from t have v: "readPH (answering 725) = 7.25" and n: "readNitrogen (answering 320) = 320.0"
    by blast+
  from ok raw v b ok' n show ?thesis
    by blast
qed

section \<open>The requests of the two sketches\<close>

lemma decode_frames:
  "decode_request nitro = holding_request 0x1E 1"
  "decode_request phos = holding_request 0x1F 1"
  "decode_request pota = holding_request 0x20 1"
  "decode_request ec = holding_request 0x15 1"
  "decode_request ph = holding_request 0x06 1"
  "decode_request temp = holding_request 0x12 2"
  by (simp_all add: decode_request_def holding_request_def be16_def
      nitro_def phos_def pota_def ec_def ph_def temp_def)

text \<open>
  C8. For nitrogen, phosphorus, potassium, electroconductivity and pH the frame that
  sketch\_jul23a sends decodes to the very request that the matching function of
  sketch\_jul28a puts to the node (slave 1, function 0x03, same start register, count
  1). For temperature both start at register 0x12, but the frame \<open>temp\<close> carries the
  count bytes 0x00 0x02 and \<^verbatim>\<open>readTemperature\<close> asks for 1 register.
\<close>

theorem requests_agree_except_temperature:
  "decode_request nitro = holding_request 0x1E 1 \<and>
   readNitrogen node =
     (let (result, buf) = transact node (decode_request nitro)
      in if result = ku8MBSuccess node then real (unat (buf 0)) else - 1) \<and>
   decode_request phos = holding_request 0x1F 1 \<and>
   readPhosphorous node =
     (let (result, buf) = transact node (decode_request phos)
      in if result = ku8MBSuccess node then real (unat (buf 0)) else - 1) \<and>
   decode_request pota = holding_request 0x20 1 \<and>
   readPotassium node =
     (let (result, buf) = transact node (decode_request pota)
      in if result = ku8MBSuccess node then real (unat (buf 0)) else - 1) \<and>
   decode_request ec = holding_request 0x15 1 \<and>
   readElectroconductivity node =
     (let (result, buf) = transact node (decode_request ec)
      in if result = ku8MBSuccess node then real (unat (buf 0)) else - 1) \<and>
   decode_request ph = holding_request 0x06 1 \<and>
   readPH node =
     (let (result, buf) = transact node (decode_request ph)
      in if result = ku8MBSuccess node then float_div (unat (buf 0)) 100 else - 1) \<and>
   decode_request temp = holding_request 0x12 2 \<and>
   readTemperature node =
     (let (result, buf) = transact node (holding_request 0x12 1)
      in if result = ku8MBSuccess node then float_div (unat (buf 0)) 10 else - 1) \<and>
   decode_request temp \<noteq> holding_request 0x12 1 \<and>
   start_register (decode_request temp) = start_register (holding_request 0x12 1) \<and>
   register_count (decode_request temp) = 2 \<and>
   register_count (holding_request 0x12 1) = 1 \<and>
   [temp ! 4, temp ! 5] = [0x00, 0x02]"
proof -
  have "decode_request temp \<noteq> holding_request 0x12 1"
    by (simp add: decode_frames holding_request_def)
  moreover have "[temp ! 4, temp ! 5] = [0x00, 0x02]"
    by (simp add: temp_def)
  moreover have "start_register (decode_request temp) = start_register (holding_request 0x12 1)"
    "register_count (decode_request temp) = 2" "register_count (holding_request 0x12 1) = 1"
    by (simp_all add: decode_frames holding_request_def)
  moreover have "readNitrogen node =
     (let (result, buf) = transact node (decode_request nitro)
      in if result = ku8MBSuccess node then real (unat (buf 0)) else - 1)"
    by (simp add: decode_frames readNitrogen_def readHoldingRegisters_def Let_def case_prod_beta)
  moreover have "readPhosphorous node =
     (let (result, buf) = transact node (decode_request phos)
      in if result = ku8MBSuccess node then real (unat (buf 0)) else - 1)"
    by (simp add: decode_frames readPhosphorous_def readHoldingRegisters_def Let_def case_prod_beta)
  moreover have "readPotassium node =
     (let (result, buf) = transact node (decode_request pota)
      in if result = ku8MBSuccess node then real (unat (buf 0)) else - 1)"
    by (simp add: decode_frames readPotassium_def readHoldingRegisters_def Let_def case_prod_beta)
  moreover have "readElectroconductivity node =
     (let (result, buf) = transact node (decode_request ec)
      in if result = ku8MBSuccess node then real (unat (buf 0)) else - 1)"
    by (simp add: decode_frames readElectroconductivity_def readHoldingRegisters_def Let_def case_prod_beta)
  moreover have "readPH node =
     (let (result, buf) = transact node (decode_request ph)
      in if result = ku8MBSuccess node then float_div (unat (buf 0)) 100 else - 1)"
    by (simp add: decode_frames readPH_def readHoldingRegisters_def Let_def case_prod_beta)
  moreover have "readTemperature node =
     (let (result, buf) = transact node (holding_request 0x12 1)
      in if result = ku8MBSuccess node then float_div (unat (buf 0)) 10 else - 1)"
    by (simp add: readTemperature_def readHoldingRegisters_def Let_def case_prod_beta)
  ultimately show ?thesis
    by (simp only: decode_frames simp_thms)
qed

section \<open>The error sentinel of sketch\_jul28a\<close>

lemma read_calls_success:
  "(r, addr, qty) \<in> set read_calls \<Longrightarrow>
   fst (readHoldingRegisters node addr qty) = ku8MBSuccess node \<Longrightarrow> 0 \<le> r node"
  by (auto simp: read_calls_def readNitrogen_def readPhosphorous_def readPotassium_def
      readElectroconductivity_def readPH_def readTemperature_def float_div_nonneg
      split: prod.splits simp del: of_nat_unat)

text \<open>
  C10. Each of the six functions of sketch\_jul28a returns a value that is at least 0
  when the node reports success and -1.0 otherwise, so the caller's test against -1.0
  prints a value exactly for the successful reads and the error line exactly for the
  failed ones.
\<close>

theorem sentinel_separates_success_from_failure:
  "\<forall>(r, addr, qty) \<in> set read_calls.
     (fst (readHoldingRegisters node addr qty) = ku8MBSuccess node \<longrightarrow> 0 \<le> r node) \<and>
     (fst (readHoldingRegisters node addr qty) \<noteq> ku8MBSuccess node \<longrightarrow> r node = - 1) \<and>
     (r node \<noteq> - 1 \<longleftrightarrow> fst (readHoldingRegisters node addr qty) = ku8MBSuccess node) \<and>
     (loop_report (r node) = Printed (r node) \<longleftrightarrow>
        fst (readHoldingRegisters node addr qty) = ku8MBSuccess node) \<and>
     (loop_report (r node) = Error_reading_data \<longleftrightarrow>
        fst (readHoldingRegisters node addr qty) \<noteq> ku8MBSuccess node)"
proof -
  have "(fst (readHoldingRegisters node addr qty) = ku8MBSuccess node \<longrightarrow> 0 \<le> r node) \<and>
     (fst (readHoldingRegisters node addr qty) \<noteq> ku8MBSuccess node \<longrightarrow> r node = - 1) \<and>
     (r node \<noteq> - 1 \<longleftrightarrow> fst (readHoldingRegisters node addr qty) = ku8MBSuccess node) \<and>
     (loop_report (r node) = Printed (r node) \<longleftrightarrow>
        fst (readHoldingRegisters node addr qty) = ku8MBSuccess node) \<and>
     (loop_report (r node) = Error_reading_data \<longleftrightarrow>
        fst (readHoldingRegisters node addr qty) \<noteq> ku8MBSuccess node)"
    if m: "(r, addr, qty) \<in> set read_calls" for r addr qty
  proof (cases "fst (readHoldingRegisters node addr qty) = ku8MBSuccess node")
    case True
    with read_calls_success [OF m] have "0 \<le> r node" by simp
    with True show ?thesis by (simp add: loop_report_def)
  next
    case False
    with read_calls_failure [OF m] have "r node = - 1" by simp
    with False show ?thesis by (simp add: loop_report_def)
  qed
  then show ?thesis by blast
qed

theorem sentinel_separates_success_from_failure_witness:
  "(readPH, 0x06, 1) \<in> set read_calls \<and>
   fst (readHoldingRegisters (answering 725) 0x06 1) = ku8MBSuccess (answering 725) \<and>
   readPH (answering 725) = 7.25 \<and> loop_report (readPH (answering 725)) = Printed 7.25 \<and>
   fst (readHoldingRegisters (failing 0xE2) 0x06 1) \<noteq> ku8MBSuccess (failing 0xE2) \<and>
   readPH (failing 0xE2) = - 1 \<and> loop_report (readPH (failing 0xE2)) = Error_reading_data"
proof -
  have m: "(readPH, 0x06, 1) \<in> set read_calls"
    by (simp add: read_calls_def)
  have ok: "fst (readHoldingRegisters (answering 725) 0x06 1) = ku8MBSuccess (answering 725)"
    by (simp add: answering_succeeds)
  have ko: "fst (readHoldingRegisters (failing 0xE2) 0x06 1) \<noteq> ku8MBSuccess (failing 0xE2)"
    by (simp add: readHoldingRegisters_def failing_def)
  have v: "readPH (answering 725) = 7.25"
    by (simp add: readPH_answering float_div_725)
  from sentinel_separates_success_from_failure [of "answering 725"] m ok
  have "loop_report (readPH (answering 725)) = Printed (readPH (answering 725))"
    by blast
  with v have p: "loop_report (readPH (answering 725)) = Printed 7.25"
    by simp
  from sentinel_separates_success_from_failure [of "failing 0xE2"] m ko
  have q: "readPH (failing 0xE2) = - 1"
    and q': "loop_report (readPH (failing 0xE2)) = Error_reading_data"
    by blast+
  from m ok ko v p q q' show ?thesis by blast
qed

end
